theory Spec2Isabelle
  imports Complex_Main
begin

section \<open>Tensors and the framework primitives the repository calls\<close>

text \<open>
  The repository is Python over a tensor framework. A tensor is its shape and its elements in
  row-major order; floating-point numbers are read as real numbers. An exception is a value
  of \<open>py_error\<close>, and a call that may raise returns \<open>py_error + 'a\<close>.
\<close>

datatype py_error =
    ValueError
  | NotImplementedError
  | IndexError
  | RuntimeError
  | TypeError
  | ZeroDivisionError
  | NameError string

datatype tensor = Tensor (shape: "nat list") (elems: "real list")

text \<open>The value a call returns, \<open>None\<close> when it raises.\<close>

definition outcome :: "py_error + 'a \<Rightarrow> 'a option" where
  "outcome r = (case r of Inl e \<Rightarrow> None | Inr v \<Rightarrow> Some v)"

text \<open>
  \<open>func.binary_cross_entropy(input, target, reduce=False)\<close>: the framework refuses a target
  whose size differs from the input's (ValueError) and an element of the input or of the
  target outside \<open>[0, 1]\<close> (RuntimeError); otherwise it returns, element by element,
  \<open>-(y * log x + (1 - y) * log (1 - x))\<close> with each logarithm clamped below at \<open>-100\<close>
  (so the logarithm of zero counts as \<open>-100\<close>).
\<close>

definition clamp_log :: "real \<Rightarrow> real" where
  "clamp_log x = (if x \<le> 0 then - 100 else max (ln x) (- 100))"

definition bce_elem :: "real \<Rightarrow> real \<Rightarrow> real" where
  "bce_elem x y = - (y * clamp_log x + (1 - y) * clamp_log (1 - x))"

definition binary_cross_entropy :: "tensor \<Rightarrow> tensor \<Rightarrow> py_error + tensor" where
  "binary_cross_entropy input target =
     (if shape target \<noteq> shape input then Inl ValueError
      else if list_ex (\<lambda>x. x < 0 \<or> 1 < x) (elems input)
              \<or> list_ex (\<lambda>y. y < 0 \<or> 1 < y) (elems target) then Inl RuntimeError
      else Inr (Tensor (shape input) (map2 bce_elem (elems input) (elems target))))"

text \<open>
  \<open>torch.mean\<close> of the elements. (On a tensor without elements the framework returns NaN,
  which is no real number; the quotient below is then \<open>0 / 0\<close>.)
\<close>

definition torch_mean :: "real list \<Rightarrow> real" where
  "torch_mean xs = sum_list xs / real (length xs)"

text \<open>\<open>detach()\<close> cuts the gradient and leaves the values as they are.\<close>

definition detach :: "real list \<Rightarrow> real list" where
  "detach xs = xs"

section \<open>util/loss.py\<close>

subsection \<open>CMFLoss\<close>

text \<open>
  The attributes of a \<open>CMFLoss\<close>. The exponent \<open>gamma\<close> is a natural number, as is the
  default \<open>2\<close>, the only value the repository constructs the loss with.
\<close>

record CMFLoss =
  alpha :: real
  gamma :: nat
  binary :: bool
  multiplier :: real
  sg :: bool

text \<open>\<open>CMFLoss.__init__(alpha=1, gamma=2, binary=False, multiplier=2, sg=False)\<close>\<close>

definition CMFLoss_init :: "real \<Rightarrow> nat \<Rightarrow> bool \<Rightarrow> real \<Rightarrow> bool \<Rightarrow> CMFLoss" where
  "CMFLoss_init a g b m s =
     \<lparr>alpha = a, gamma = g, binary = b, multiplier = m, sg = s\<rparr>"

definition CMFLoss_default :: CMFLoss where
  "CMFLoss_default = CMFLoss_init 1 2 False 2 False"

definition eps :: real where
  "eps = 1 / 10 ^ 9"

text \<open>The two weight tensors of \<open>CMFLoss.forward\<close>, lines 54 to 61.\<close>

definition cmf_weights :: "CMFLoss \<Rightarrow> real list \<Rightarrow> real list \<Rightarrow> real list \<times> real list" where
  "cmf_weights self pt_a pt_b =
     (if sg self then
        (let d_pt_a = detach pt_a;
             d_pt_b = detach pt_b;
             wt_a = map2 (\<lambda>a db. ((db + eps) * (multiplier self * a * db)) / (a + db + eps))
                      pt_a d_pt_b;
             wt_b = map2 (\<lambda>da b. ((da + eps) * (multiplier self * da * b)) / (da + b + eps))
                      d_pt_a pt_b
         in (wt_a, wt_b))
      else
        (let wt_a = map2 (\<lambda>a b. ((b + eps) * (multiplier self * a * b)) / (a + b + eps))
                      pt_a pt_b;
             wt_b = map2 (\<lambda>a b. ((a + eps) * (multiplier self * a * b)) / (a + b + eps))
                      pt_a pt_b
         in (wt_a, wt_b)))"

definition CMFLoss_forward :: "CMFLoss \<Rightarrow> tensor \<Rightarrow> tensor \<Rightarrow> tensor \<Rightarrow> py_error + real" where
  "CMFLoss_forward self inputs_a inputs_b targets =
     (case binary_cross_entropy inputs_a targets of
        Inl e \<Rightarrow> Inl e
      | Inr bce_loss_a \<Rightarrow>
     (case binary_cross_entropy inputs_b targets of
        Inl e \<Rightarrow> Inl e
      | Inr bce_loss_b \<Rightarrow>
        (let pt_a = map (\<lambda>l. exp (- l)) (elems bce_loss_a);
             pt_b = map (\<lambda>l. exp (- l)) (elems bce_loss_b);
             (wt_a0, wt_b0) = cmf_weights self pt_a pt_b;
             wt_a = (if binary self then map2 (\<lambda>w y. w * (1 - y)) wt_a0 (elems targets)
                     else wt_a0);
             wt_b = (if binary self then map2 (\<lambda>w y. w * (1 - y)) wt_b0 (elems targets)
                     else wt_b0);
             f_loss_a = map2 (\<lambda>w l. alpha self * (1 - w) ^ gamma self * l)
                          wt_a (elems bce_loss_a);
             f_loss_b = map2 (\<lambda>w l. alpha self * (1 - w) ^ gamma self * l)
                          wt_b (elems bce_loss_b)
         in Inr (0.5 * torch_mean f_loss_a + 0.5 * torch_mean f_loss_b))))"

subsection \<open>Total_loss\<close>

text \<open>
  \<open>nn.CrossEntropyLoss\<close> is a primitive of the framework; the record holds it as the
  function \<open>criterion_cel\<close>.
\<close>

record Total_loss =
  lamb :: real
  criterion_cel :: "tensor \<Rightarrow> tensor \<Rightarrow> py_error + real"
  criterion_cmfl :: CMFLoss

text \<open>\<open>Total_loss.__init__(lamb=0.7)\<close>\<close>

definition Total_loss_init :: "(tensor \<Rightarrow> tensor \<Rightarrow> py_error + real) \<Rightarrow> real \<Rightarrow> Total_loss" where
  "Total_loss_init CrossEntropyLoss l =
     \<lparr>lamb = l, criterion_cel = CrossEntropyLoss, criterion_cmfl = CMFLoss_default\<rparr>"

text \<open>The term \<open>loss_pq\<close> of line 22; the left operand of \<open>+\<close> is evaluated first.\<close>

definition loss_pq_term :: "Total_loss \<Rightarrow> tensor \<Rightarrow> tensor \<Rightarrow> tensor \<Rightarrow> py_error + real" where
  "loss_pq_term self p q targets =
     (case CMFLoss_forward (criterion_cmfl self) p q targets of
        Inl e \<Rightarrow> Inl e
      | Inr l1 \<Rightarrow>
     (case CMFLoss_forward (criterion_cmfl self) q p targets of
        Inl e \<Rightarrow> Inl e
      | Inr l2 \<Rightarrow> Inr (l1 + l2)))"

definition Total_loss_default :: "(tensor \<Rightarrow> tensor \<Rightarrow> py_error + real) \<Rightarrow> Total_loss" where
  "Total_loss_default CrossEntropyLoss = Total_loss_init CrossEntropyLoss (7 / 10)"

definition Total_loss_forward ::
    "Total_loss \<Rightarrow> tensor \<Rightarrow> tensor \<Rightarrow> tensor \<Rightarrow> tensor \<Rightarrow> py_error + real" where
  "Total_loss_forward self p q r targets =
     (case criterion_cel self r targets of
        Inl e \<Rightarrow> Inl e
      | Inr loss_r \<Rightarrow>
     (case loss_pq_term self p q targets of
        Inl e \<Rightarrow> Inl e
      | Inr loss_pq \<Rightarrow> Inr ((1 - lamb self) * loss_r + lamb self * loss_pq)))"

subsection \<open>The closed form of the focal loss, as the specification writes it\<close>

definition BCE :: "real list \<Rightarrow> real list \<Rightarrow> real list" where
  "BCE a t = map2 bce_elem a t"

text \<open>
  Element by element: \<open>p_a = exp (- BCE a)\<close>, \<open>p_b = exp (- BCE b)\<close>,
  \<open>w_a = (p_b + eps) * (2 * p_a * p_b) / (p_a + p_b + eps)\<close> and
  \<open>w_b = (p_a + eps) * (2 * p_a * p_b) / (p_a + p_b + eps)\<close> with \<open>eps = 1e-9\<close>.
\<close>

definition spec_w_a :: "real \<Rightarrow> real \<Rightarrow> real" where
  "spec_w_a l_a l_b =
     (let p_a = exp (- l_a); p_b = exp (- l_b); e = 1 / 10 ^ 9
      in (p_b + e) * (2 * p_a * p_b) / (p_a + p_b + e))"

definition spec_w_b :: "real \<Rightarrow> real \<Rightarrow> real" where
  "spec_w_b l_a l_b =
     (let p_a = exp (- l_a); p_b = exp (- l_b); e = 1 / 10 ^ 9
      in (p_a + e) * (2 * p_a * p_b) / (p_a + p_b + e))"

definition CMFLoss_spec :: "real list \<Rightarrow> real list \<Rightarrow> real list \<Rightarrow> real" where
  "CMFLoss_spec a b t =
     0.5 * torch_mean (map2 (\<lambda>l_a l_b. (1 - spec_w_a l_a l_b) ^ 2 * l_a) (BCE a t) (BCE b t))
   + 0.5 * torch_mean (map2 (\<lambda>l_a l_b. (1 - spec_w_b l_a l_b) ^ 2 * l_b) (BCE a t) (BCE b t))"


section \<open>model/cd_resnet.py: how the modules are built\<close>

text \<open>
  A module is the tree of its sub-modules, each with the arguments its constructor was
  called with (\<open>None\<close>: the argument was not passed). \<open>CD_Conv2d\<close> (imported from
  \<open>.conv\<close>) and \<open>Sim_AM\<close> (imported from \<open>.attention\<close>) are constructors like the
  framework's layers. The values of the weights are not part of the tree, so the loops
  of \<open>ResNet.__init__\<close> that initialise them leave it unchanged.
\<close>

datatype module =
    CD_Conv2d (in_channels: int) (out_channels: int) (kernel_size: int) (stride: int)
      (padding: "int option") (groups: "int option") (bias: bool) (dilation: "int option")
  | Conv2d (in_channels: int) (out_channels: int) (kernel_size: int) (stride: int)
      (padding: "int option") (groups: "int option") (bias: bool) (dilation: "int option")
  | BatchNorm2d int
  | GroupNorm int int
  | ReLU bool
  | MaxPool2d int int int
  | AdaptiveAvgPool2d "int list"
  | Upsample "int list" string
  | Linear int int
  | Sigmoid
  | Sim_AM int
  | Sequential "module list"
  | BasicBlock (conv1: module) (bn1: module) (relu: module) (conv2: module) (bn2: module)
      (downsample: "module option") (stride: int)
  | ResNet (conv1: module) (bn1: module) (relu: module) (maxpool: module)
      (layer1: module) (layer2: module) (layer3: module) (layer4: module)
      (avgpool: module) (fc: module) (downsample_8x8: module)
  | RGB_net (net: module) (gavg_pool: module) (classifier: module)
  | Depth_net (net: module) (gavg_pool: module) (classifier: module)
  | RGBD_model (rgb_net: module) (depth_net: module) (classifier: module)

definition conv3x3 :: "int \<Rightarrow> int \<Rightarrow> int \<Rightarrow> int \<Rightarrow> int \<Rightarrow> module" where
  "conv3x3 in_planes out_planes stride' groups' dilation' =
     CD_Conv2d in_planes out_planes 3 stride' (Some dilation') (Some groups') False
       (Some dilation')"

definition conv1x1 :: "int \<Rightarrow> int \<Rightarrow> int \<Rightarrow> module" where
  "conv1x1 in_planes out_planes stride' = Conv2d in_planes out_planes 1 stride' None None False None"

text \<open>\<open>norm_layer\<close> is an optional callable; \<open>None\<close> stands for \<open>nn.BatchNorm2d\<close>.\<close>

definition norm_layer_or_default :: "(int \<Rightarrow> module) option \<Rightarrow> int \<Rightarrow> module" where
  "norm_layer_or_default norm_layer =
     (case norm_layer of None \<Rightarrow> BatchNorm2d | Some f \<Rightarrow> f)"

text \<open>
  \<open>BasicBlock.__init__(inplanes, planes, stride=1, downsample=None, groups=1,
  base_width=64, dilation=1, norm_layer=None, att_mod=None)\<close>
\<close>

definition BasicBlock_init ::
    "int \<Rightarrow> int \<Rightarrow> int \<Rightarrow> module option \<Rightarrow> int \<Rightarrow> int \<Rightarrow> int \<Rightarrow> (int \<Rightarrow> module) option
     \<Rightarrow> string option \<Rightarrow> py_error + module" where
  "BasicBlock_init inplanes planes stride' downsample' groups' base_width dilation'
       norm_layer att_mod =
     (let norm = norm_layer_or_default norm_layer in
      if groups' \<noteq> 1 \<or> base_width \<noteq> 64 then Inl ValueError
      else if dilation' > 1 then Inl NotImplementedError
      else
        (let conv1' = conv3x3 inplanes planes stride' 1 1;
             bn1' = norm planes;
             relu' = ReLU True;
             conv2' = conv3x3 planes planes 1 1 1;
             bn2' = norm planes;
             conv2'' = (if att_mod = Some ''SimAM''
                        then Sequential [conv2', Sim_AM planes] else conv2')
         in Inr (BasicBlock conv1' bn1' relu' conv2'' bn2' downsample' stride')))"

text \<open>
  \<open>BasicBlock_init\<close> takes every constructor that \<open>__init__\<close> calls after its two checks
  to return. \<open>BasicBlock_init_full\<close> is the same constructor with those calls as calls
  that may raise: \<open>raises m\<close> is the exception that constructing the module \<open>m\<close> raises
  (\<open>None\<close> when the constructor returns \<open>m\<close>), and the callable \<open>norm_layer\<close> returns a
  module or raises. The calls run in the order of lines 76 to 87: \<open>conv3x3\<close> for
  \<open>conv1\<close>, \<open>norm_layer(planes)\<close>, \<open>nn.ReLU\<close> (which always returns), \<open>conv3x3\<close> for
  \<open>conv2\<close>, \<open>norm_layer(planes)\<close> again, and \<open>Sim_AM(planes)\<close> when \<open>att_mod\<close> is
  \<open>'SimAM'\<close>.
\<close>

definition construct :: "(module \<Rightarrow> py_error option) \<Rightarrow> module \<Rightarrow> py_error + module" where
  "construct raises m = (case raises m of None \<Rightarrow> Inr m | Some e \<Rightarrow> Inl e)"

definition BasicBlock_init_full ::
    "(module \<Rightarrow> py_error option) \<Rightarrow> int \<Rightarrow> int \<Rightarrow> int \<Rightarrow> module option \<Rightarrow> int \<Rightarrow> int \<Rightarrow> int
     \<Rightarrow> (int \<Rightarrow> py_error + module) option \<Rightarrow> string option \<Rightarrow> py_error + module" where
  "BasicBlock_init_full raises inplanes planes stride' downsample' groups' base_width dilation'
       norm_layer att_mod =
     (let norm = (case norm_layer of
                    None \<Rightarrow> (\<lambda>n. construct raises (BatchNorm2d n))
                  | Some f \<Rightarrow> f) in
      if groups' \<noteq> 1 \<or> base_width \<noteq> 64 then Inl ValueError
      else if dilation' > 1 then Inl NotImplementedError
      else
        (case construct raises (conv3x3 inplanes planes stride' 1 1) of
           Inl e \<Rightarrow> Inl e
         | Inr conv1' \<Rightarrow>
        (case norm planes of
           Inl e \<Rightarrow> Inl e
         | Inr bn1' \<Rightarrow>
        (case construct raises (conv3x3 planes planes 1 1 1) of
           Inl e \<Rightarrow> Inl e
         | Inr conv2' \<Rightarrow>
        (case norm planes of
           Inl e \<Rightarrow> Inl e
         | Inr bn2' \<Rightarrow>
             if att_mod = Some ''SimAM''
             then (case construct raises (Sim_AM planes) of
                     Inl e \<Rightarrow> Inl e
                   | Inr att \<Rightarrow>
                       Inr (BasicBlock conv1' bn1' (ReLU True) (Sequential [conv2', att]) bn2'
                              downsample' stride'))
             else Inr (BasicBlock conv1' bn1' (ReLU True) conv2' bn2' downsample' stride'))))))"


text \<open>The constructors of the modules all return.\<close>

definition all_return :: "module \<Rightarrow> py_error option" where
  "all_return m = None"


text \<open>
  The block class handed to \<open>ResNet\<close>. \<open>_make_layer\<close> calls it with the keyword
  \<open>att_mod\<close>, which \<open>Bottleneck.__init__\<close> does not take: that call is a TypeError.
\<close>

datatype block_cls = BasicBlock_cls | Bottleneck_cls

fun expansion :: "block_cls \<Rightarrow> int" where
  "expansion BasicBlock_cls = 1"
| "expansion Bottleneck_cls = 4"

fun call_block ::
    "block_cls \<Rightarrow> int \<Rightarrow> int \<Rightarrow> int \<Rightarrow> module option \<Rightarrow> int \<Rightarrow> int \<Rightarrow> int
     \<Rightarrow> (int \<Rightarrow> module) option \<Rightarrow> string option \<Rightarrow> py_error + module" where
  "call_block BasicBlock_cls inplanes planes stride' downsample' groups' base_width dilation'
       norm_layer att_mod =
     BasicBlock_init inplanes planes stride' downsample' groups' base_width dilation'
       norm_layer att_mod"
| "call_block Bottleneck_cls inplanes planes stride' downsample' groups' base_width dilation'
       norm_layer att_mod = Inl TypeError"

text \<open>The attributes of \<open>self\<close> that \<open>_make_layer\<close> reads and writes.\<close>

record resnet_self =
  self_inplanes :: int
  self_dilation :: int
  self_groups :: int
  self_base_width :: int
  self_norm_layer :: "int \<Rightarrow> module"

text \<open>The loop \<open>for _ in range(1, blocks)\<close>, run \<open>n\<close> more times.\<close>

fun more_blocks :: "nat \<Rightarrow> resnet_self \<Rightarrow> block_cls \<Rightarrow> int \<Rightarrow> string option
    \<Rightarrow> py_error + module list" where
  "more_blocks 0 self block planes att_mod = Inr []"
| "more_blocks (Suc n) self block planes att_mod =
     (case call_block block (self_inplanes self) planes 1 None (self_groups self)
             (self_base_width self) (self_dilation self) (Some (self_norm_layer self)) att_mod of
        Inl e \<Rightarrow> Inl e
      | Inr b \<Rightarrow>
     (case more_blocks n self block planes att_mod of
        Inl e \<Rightarrow> Inl e
      | Inr bs \<Rightarrow> Inr (b # bs)))"

text \<open>
  \<open>ResNet._make_layer(block, planes, blocks, stride=1, dilate=False, att_mod=None)\<close>;
  it returns the layer and the updated attributes.
\<close>

definition make_layer ::
    "resnet_self \<Rightarrow> block_cls \<Rightarrow> int \<Rightarrow> int \<Rightarrow> int \<Rightarrow> bool \<Rightarrow> string option
     \<Rightarrow> py_error + module \<times> resnet_self" where
  "make_layer self block planes blocks stride' dilate att_mod =
     (let norm = self_norm_layer self;
          previous_dilation = self_dilation self;
          self1 = (if dilate then self\<lparr>self_dilation := self_dilation self * stride'\<rparr> else self);
          stride1 = (if dilate then 1 else stride');
          downsample' =
            (if stride1 \<noteq> 1 \<or> self_inplanes self1 \<noteq> planes * expansion block
             then Some (Sequential [conv1x1 (self_inplanes self1) (planes * expansion block) stride1,
                                    norm (planes * expansion block)])
             else None)
      in case call_block block (self_inplanes self1) planes stride1 downsample'
                (self_groups self1) (self_base_width self1) previous_dilation (Some norm) att_mod of
           Inl e \<Rightarrow> Inl e
         | Inr first \<Rightarrow>
             (let self2 = self1\<lparr>self_inplanes := planes * expansion block\<rparr> in
              case more_blocks (nat (blocks - 1)) self2 block planes att_mod of
                Inl e \<Rightarrow> Inl e
              | Inr rest \<Rightarrow> Inr (Sequential (first # rest), self2)))"

text \<open>The keyword arguments of \<open>ResNet.__init__\<close>, with their defaults.\<close>

record resnet_kwargs =
  kw_num_classes :: int
  kw_zero_init_residual :: bool
  kw_groups :: int
  kw_width_per_group :: int
  kw_replace_stride_with_dilation :: "bool list option"
  kw_norm_layer :: "(int \<Rightarrow> module) option"
  kw_in_mod :: "string option"
  kw_att_mod :: "string option"

definition default_kwargs :: resnet_kwargs where
  "default_kwargs =
     \<lparr>kw_num_classes = 1000, kw_zero_init_residual = False, kw_groups = 1,
      kw_width_per_group = 64, kw_replace_stride_with_dilation = None,
      kw_norm_layer = None, kw_in_mod = None, kw_att_mod = None\<rparr>"

text \<open>\<open>layers[i]\<close> for a constant index \<open>i\<close> that is not negative.\<close>

definition list_item :: "'a list \<Rightarrow> nat \<Rightarrow> py_error + 'a" where
  "list_item xs i = (if i < length xs then Inr (xs ! i) else Inl IndexError)"

definition stem_conv :: "string option \<Rightarrow> module" where
  "stem_conv in_mod =
     (if in_mod = Some ''Depth''
      then CD_Conv2d 1 64 7 2 (Some 3) None False None
      else CD_Conv2d 3 64 7 2 (Some 3) None False None)"

definition ResNet_init :: "block_cls \<Rightarrow> int list \<Rightarrow> resnet_kwargs \<Rightarrow> py_error + module" where
  "ResNet_init block layers kw =
     (let norm = norm_layer_or_default (kw_norm_layer kw);
          replace = (case kw_replace_stride_with_dilation kw of
                       None \<Rightarrow> [False, False, False] | Some r \<Rightarrow> r)
      in if length replace \<noteq> 3 then Inl ValueError
      else
        (let self0 = \<lparr>self_inplanes = 64, self_dilation = 1, self_groups = kw_groups kw,
                      self_base_width = kw_width_per_group kw, self_norm_layer = norm\<rparr>;
             conv1' = stem_conv (kw_in_mod kw);
             bn1' = norm 64;
             relu' = ReLU True;
             maxpool' = MaxPool2d 3 2 1
         in case list_item layers 0 of Inl e \<Rightarrow> Inl e | Inr n0 \<Rightarrow>
           (case make_layer self0 block 64 n0 1 False (kw_att_mod kw) of
              Inl e \<Rightarrow> Inl e | Inr (layer1', self1) \<Rightarrow>
           (case list_item layers 1 of Inl e \<Rightarrow> Inl e | Inr n1 \<Rightarrow>
           (case make_layer self1 block 128 n1 2 (replace ! 0) (kw_att_mod kw) of
              Inl e \<Rightarrow> Inl e | Inr (layer2', self2) \<Rightarrow>
           (case list_item layers 2 of Inl e \<Rightarrow> Inl e | Inr n2 \<Rightarrow>
           (case make_layer self2 block 256 n2 2 (replace ! 1) (kw_att_mod kw) of
              Inl e \<Rightarrow> Inl e | Inr (layer3', self3) \<Rightarrow>
           (case list_item layers 3 of Inl e \<Rightarrow> Inl e | Inr n3 \<Rightarrow>
           (case make_layer self3 block 512 n3 2 (replace ! 2) (kw_att_mod kw) of
              Inl e \<Rightarrow> Inl e | Inr (layer4', self4) \<Rightarrow>
              Inr (ResNet conv1' bn1' relu' maxpool' layer1' layer2' layer3' layer4'
                     (AdaptiveAvgPool2d [1, 1])
                     (Linear (512 * expansion block) (kw_num_classes kw))
                     (Upsample [4, 4] ''bilinear'')))))))))))"

definition resnet_factory ::
    "string \<Rightarrow> block_cls \<Rightarrow> int list \<Rightarrow> bool \<Rightarrow> bool \<Rightarrow> resnet_kwargs \<Rightarrow> py_error + module" where
  "resnet_factory arch block layers pretrained progress kw = ResNet_init block layers kw"

definition resnet18 :: "resnet_kwargs \<Rightarrow> py_error + module" where
  "resnet18 kw = resnet_factory ''resnet18'' BasicBlock_cls [2, 2, 2, 2] False True kw"

definition RGB_net_init :: "py_error + module" where
  "RGB_net_init =
     (case resnet18 (default_kwargs\<lparr>kw_att_mod := Some ''SimAM''\<rparr>) of
        Inl e \<Rightarrow> Inl e
      | Inr net' \<Rightarrow>
          Inr (RGB_net net' (AdaptiveAvgPool2d [1]) (Sequential [Linear 960 1, Sigmoid])))"

definition Depth_net_init :: "py_error + module" where
  "Depth_net_init =
     (case resnet18 (default_kwargs\<lparr>kw_in_mod := Some ''Depth'', kw_att_mod := Some ''SimAM''\<rparr>) of
        Inl e \<Rightarrow> Inl e
      | Inr net' \<Rightarrow>
          Inr (Depth_net net' (AdaptiveAvgPool2d [1]) (Sequential [Linear 960 1, Sigmoid])))"

text \<open>\<open>nn.Module.modules()\<close>: the module itself and every module below it.\<close>

fun modules :: "module \<Rightarrow> module list" where
  "modules (Sequential ms) = Sequential ms # concat (map modules ms)"
| "modules (BasicBlock c1 b1 r c2 b2 d s) =
     BasicBlock c1 b1 r c2 b2 d s # modules c1 @ modules b1 @ modules r @ modules c2 @ modules b2
       @ (case d of None \<Rightarrow> [] | Some m \<Rightarrow> modules m)"
| "modules (ResNet c1 b1 r mp l1 l2 l3 l4 ap f d8) =
     ResNet c1 b1 r mp l1 l2 l3 l4 ap f d8 # modules c1 @ modules b1 @ modules r @ modules mp
       @ modules l1 @ modules l2 @ modules l3 @ modules l4 @ modules ap @ modules f @ modules d8"
| "modules (RGB_net n g c) = RGB_net n g c # modules n @ modules g @ modules c"
| "modules (Depth_net n g c) = Depth_net n g c # modules n @ modules g @ modules c"
| "modules (RGBD_model a b c) = RGBD_model a b c # modules a @ modules b @ modules c"
| "modules m = [m]"

subsection \<open>Shapes of modules\<close>

fun is_CD_Conv2d :: "module \<Rightarrow> bool" where
  "is_CD_Conv2d (CD_Conv2d i out k s p g b d) = True"
| "is_CD_Conv2d m = False"

text \<open>A convolution with a 3x3 kernel that is the framework's own \<open>nn.Conv2d\<close>.\<close>

fun plain_conv3x3 :: "module \<Rightarrow> bool" where
  "plain_conv3x3 (Conv2d i out k s p g b d) = (k = 3)"
| "plain_conv3x3 m = False"

fun is_ResNet :: "module \<Rightarrow> bool" where
  "is_ResNet (ResNet c1 b1 r mp l1 l2 l3 l4 ap f d8) = True"
| "is_ResNet m = False"

fun is_BasicBlock :: "module \<Rightarrow> bool" where
  "is_BasicBlock (BasicBlock c1 b1 r c2 b2 d s) = True"
| "is_BasicBlock m = False"

text \<open>A central-difference convolution followed by a \<open>Sim_AM\<close> layer, in a \<open>Sequential\<close>.\<close>

fun wraps_Sim_AM :: "module \<Rightarrow> bool" where
  "wraps_Sim_AM (Sequential [c, Sim_AM n]) = is_CD_Conv2d c"
| "wraps_Sim_AM m = False"

text \<open>Every module but a \<open>BasicBlock\<close> whose second convolution has no attention layer.\<close>

fun attended :: "module \<Rightarrow> bool" where
  "attended (BasicBlock c1 b1 r c2 b2 d s) = wraps_Sim_AM c2"
| "attended m = True"

definition layer_ok :: "string option \<Rightarrow> module \<Rightarrow> bool" where
  "layer_ok att_mod m = (\<not> plain_conv3x3 m \<and> (att_mod = Some ''SimAM'' \<longrightarrow> attended m))"

section \<open>model/rgbd_model.py and the forward passes\<close>

text \<open>\<open>RGBD_model.__init__(device)\<close>; moving a module to a device leaves the tree as it is.\<close>

definition RGBD_model_init :: "py_error + module" where
  "RGBD_model_init =
     (case RGB_net_init of
        Inl e \<Rightarrow> Inl e
      | Inr rgb \<Rightarrow>
     (case Depth_net_init of
        Inl e \<Rightarrow> Inl e
      | Inr depth \<Rightarrow> Inr (RGBD_model rgb depth (Sequential [Linear 1920 1, Sigmoid]))))"

subsection \<open>Tensor operations the forward passes call\<close>

text \<open>The first \<open>n\<close> consecutive pieces of length \<open>k\<close> of a list.\<close>

definition rows :: "nat \<Rightarrow> nat \<Rightarrow> 'a list \<Rightarrow> 'a list list" where
  "rows n k xs = map (\<lambda>i. take k (drop (i * k) xs)) [0..<n]"

text \<open>
  \<open>x[:, 0:1, :, :]\<close>: four indices need a tensor of four dimensions or more (IndexError
  otherwise); the slice keeps, in every batch entry, the first channel if there is one.
\<close>

definition first_channel :: "tensor \<Rightarrow> py_error + tensor" where
  "first_channel x =
     (case shape x of
        b # c # rest \<Rightarrow>
          if length rest < 2 then Inl IndexError
          else Inr (Tensor (b # min 1 c # rest)
                     (concat (map (take (prod_list rest)) (rows b (c * prod_list rest) (elems x)))))
      | _ \<Rightarrow> Inl IndexError)"

text \<open>
  Two tensors of the same shape (and so with as many elements) that hold the same number
  at every index \<open>[n, 0, ...]\<close>, which in row-major order is the position
  \<open>n * (C * rest) + i\<close> for \<open>i\<close> below the product \<open>rest\<close> of the trailing dimensions.
\<close>

definition agree_on_first_channel :: "tensor \<Rightarrow> tensor \<Rightarrow> bool" where
  "agree_on_first_channel x x' =
     (shape x = shape x' \<and> length (elems x) = length (elems x') \<and>
      (case shape x of
         b # c # rest \<Rightarrow>
           c = 0 \<or>
           list_all (\<lambda>n. list_all (\<lambda>i. elems x ! (n * (c * prod_list rest) + i)
                                       = elems x' ! (n * (c * prod_list rest) + i))
                                 [0..<prod_list rest])
                    [0..<b]
       | _ \<Rightarrow> True))"

text \<open>\<open>squeeze()\<close> without an argument drops every dimension of size one.\<close>

definition squeeze :: "tensor \<Rightarrow> tensor" where
  "squeeze x = Tensor (filter (\<lambda>d. d \<noteq> 1) (shape x)) (elems x)"

definition func_sigmoid :: "tensor \<Rightarrow> tensor" where
  "func_sigmoid x = Tensor (shape x) (map (\<lambda>v. 1 / (1 + exp (- v))) (elems x))"

text \<open>
  \<open>torch.cat([a, b], dim=1)\<close>: dimension 1 must exist (IndexError otherwise) and the two
  tensors must agree in every other dimension (RuntimeError otherwise). (A tensor without
  any dimension, for which the framework has an error of its own, and an empty tensor of
  one dimension, which it skips, are not told apart from the other tensors that lack
  dimension 1; pooled features of 960 channels are neither.)
\<close>

definition torch_cat_dim1 :: "tensor \<Rightarrow> tensor \<Rightarrow> py_error + tensor" where
  "torch_cat_dim1 a b =
     (case shape a of
        n # fa # ra \<Rightarrow>
          (case shape b of
             m # fb # rb \<Rightarrow>
               if n = m \<and> ra = rb
               then Inr (Tensor (n # (fa + fb) # ra)
                          (concat (map2 (@) (rows n (fa * prod_list ra) (elems a))
                                            (rows n (fb * prod_list rb) (elems b)))))
               else Inl RuntimeError
           | _ \<Rightarrow> Inl RuntimeError)
      | _ \<Rightarrow> Inl IndexError)"

subsection \<open>The forward passes\<close>

text \<open>
  Calling a module of the framework (the backbone, the pooling layer, a classifier) with
  the weights it holds is the parameter \<open>run\<close>; the forward passes written in the
  repository are the functions below. \<open>RGB_net.forward\<close> and \<open>Depth_net.forward\<close>
  return \<open>(gap, p)\<close> and \<open>(gap, q)\<close>.
\<close>

definition RGB_net_forward ::
    "(module \<Rightarrow> tensor \<Rightarrow> py_error + tensor) \<Rightarrow> module \<Rightarrow> tensor \<Rightarrow> py_error + tensor \<times> tensor" where
  "RGB_net_forward run self x =
     (case run (net self) x of
        Inl e \<Rightarrow> Inl e
      | Inr y \<Rightarrow>
     (case run (gavg_pool self) y of
        Inl e \<Rightarrow> Inl e
      | Inr pooled \<Rightarrow>
          (let gap = func_sigmoid (squeeze pooled) in
           case run (classifier self) gap of
             Inl e \<Rightarrow> Inl e
           | Inr p \<Rightarrow> Inr (gap, p))))"

definition Depth_net_forward ::
    "(module \<Rightarrow> tensor \<Rightarrow> py_error + tensor) \<Rightarrow> module \<Rightarrow> tensor \<Rightarrow> py_error + tensor \<times> tensor" where
  "Depth_net_forward run self x =
     (case run (net self) x of
        Inl e \<Rightarrow> Inl e
      | Inr y \<Rightarrow>
     (case run (gavg_pool self) y of
        Inl e \<Rightarrow> Inl e
      | Inr pooled \<Rightarrow>
          (let gap = func_sigmoid (squeeze pooled) in
           case run (classifier self) gap of
             Inl e \<Rightarrow> Inl e
           | Inr q \<Rightarrow> Inr (gap, q))))"

text \<open>\<open>RGBD_model.forward(x_rgb, x_d)\<close>, which returns \<open>(gap, r, p, q)\<close>.\<close>

definition RGBD_model_forward ::
    "(module \<Rightarrow> tensor \<Rightarrow> py_error + tensor) \<Rightarrow> module \<Rightarrow> tensor \<Rightarrow> tensor
     \<Rightarrow> py_error + tensor \<times> tensor \<times> tensor \<times> tensor" where
  "RGBD_model_forward run self x_rgb x_d =
     (case first_channel x_d of
        Inl e \<Rightarrow> Inl e
      | Inr x_d0 \<Rightarrow>
     (case RGB_net_forward run (rgb_net self) x_rgb of
        Inl e \<Rightarrow> Inl e
      | Inr (gap_rgb, p) \<Rightarrow>
     (case Depth_net_forward run (depth_net self) x_d0 of
        Inl e \<Rightarrow> Inl e
      | Inr (gap_d, q) \<Rightarrow>
     (case torch_cat_dim1 gap_rgb gap_d of
        Inl e \<Rightarrow> Inl e
      | Inr gap \<Rightarrow>
     (case run (classifier self) gap of
        Inl e \<Rightarrow> Inl e
      | Inr r \<Rightarrow> Inr (gap, r, p, q))))))"

text \<open>
  What the framework computes when every weight and bias is zero and the images are
  128 by 128: on a batch with as many channels as its stem convolution takes, the backbone
  returns zeros of shape \<open>[B, 960, 4, 4]\<close>; the pooling layer returns zeros of shape
  \<open>[B, C, 1, 1]\<close>, and a linear layer followed by a sigmoid returns \<open>1 / 2\<close> for every row
  of its input. On any other input the call is a RuntimeError here.
\<close>

fun run_zero_weights :: "module \<Rightarrow> tensor \<Rightarrow> py_error + tensor" where
  "run_zero_weights (ResNet c1 b1 r mp l1 l2 l3 l4 ap f d8) x =
     (case shape x of
        [b, c, h, w] \<Rightarrow>
          if int c = in_channels c1 \<and> h = 128 \<and> w = 128
          then Inr (Tensor [b, 960, 4, 4] (replicate (b * 960 * 16) 0))
          else Inl RuntimeError
      | _ \<Rightarrow> Inl RuntimeError)"
| "run_zero_weights (AdaptiveAvgPool2d out) x =
     (case shape x of
        b # c # rest \<Rightarrow> Inr (Tensor [b, c, 1, 1] (replicate (b * c) 0))
      | _ \<Rightarrow> Inl RuntimeError)"
| "run_zero_weights (Sequential [Linear i out, Sigmoid]) x =
     (if shape x \<noteq> [] \<and> int (last (shape x)) = i
      then Inr (Tensor (butlast (shape x) @ [nat out])
                 (replicate (prod_list (butlast (shape x)) * nat out) (1 / 2)))
      else Inl RuntimeError)"
| "run_zero_weights m x = Inl RuntimeError"

section \<open>test.py\<close>

text \<open>
  The names bound in the script's namespace when line 48 runs: by the imports (lines 1 to
  14), by the assignments of lines 17 to 22 and by those of lines 27 to 47. A name that is
  not among them is looked up among Python's built-in names, of which the script uses the
  ones listed; no built-in name is \<open>Accuracy\<close>.
\<close>

definition test_py_names :: "string list" where
  "test_py_names =
     [''nan'', ''os'', ''NUL'', ''NaN'', ''torch'', ''nn'', ''DataLoader'', ''transforms'',
      ''CASIA_SURF'', ''read_cfg'', ''Total_loss'', ''AvgMeter'', ''Metric'',
      ''device'', ''cfg'', ''data_cfg'', ''test_cfg'', ''root_dir'', ''save_path'',
      ''train_transform'', ''test_set'', ''test_loader'', ''model'']"

definition builtin_names :: "string list" where
  "builtin_names = [''__name__'', ''__file__'', ''enumerate'', ''len'', ''print'']"

definition lookup_name :: "string \<Rightarrow> py_error + unit" where
  "lookup_name n =
     (if n \<in> set test_py_names \<or> n \<in> set builtin_names then Inr () else Inl (NameError n))"

text \<open>\<open>label.float().reshape(len(label), 1)\<close>\<close>

definition reshape_label :: "tensor \<Rightarrow> py_error + tensor" where
  "reshape_label label =
     (case shape label of
        [] \<Rightarrow> Inl TypeError
      | b # rest \<Rightarrow>
          if b * prod_list rest = b then Inr (Tensor [b, 1] (elems label)) else Inl RuntimeError)"

text \<open>\<open>torch.where(score > 0.5, 1., 0.)\<close>\<close>

definition torch_where_above_half :: "tensor \<Rightarrow> tensor" where
  "torch_where_above_half score =
     Tensor (shape score) (map (\<lambda>s. if s > 0.5 then 1 else 0) (elems score))"

text \<open>
  Modelled from the spec: the class \<open>Accuracy\<close>, which no file of the repository under
  \<open>src\<close> defines. The meter accumulates the accuracy of each batch and its average is
  the mean over all batches; how the accuracy of one batch is computed is the parameter
  \<open>calc_acc\<close>.
\<close>

definition meter_avg :: "real list \<Rightarrow> real" where
  "meter_avg vals = sum_list vals / real (length vals)"

text \<open>The body of the loop of lines 50 to 62, batch after batch.\<close>

fun evaluation_loop ::
    "(tensor \<Rightarrow> tensor \<Rightarrow> real)
     \<Rightarrow> (tensor \<Rightarrow> tensor \<Rightarrow> py_error + tensor \<times> tensor \<times> tensor \<times> tensor)
     \<Rightarrow> (tensor \<times> tensor \<times> tensor) list \<Rightarrow> real list \<Rightarrow> py_error + real list" where
  "evaluation_loop calc_acc model [] vals = Inr vals"
| "evaluation_loop calc_acc model ((rgb_map, depth_map, label) # batches) vals =
     (case reshape_label label of
        Inl e \<Rightarrow> Inl e
      | Inr label' \<Rightarrow>
     (case model rgb_map depth_map of
        Inl e \<Rightarrow> Inl e
      | Inr output \<Rightarrow>
          (let score = fst (snd output);
               pred = torch_where_above_half score;
               acc_val = calc_acc pred label'
           in evaluation_loop calc_acc model batches (vals @ [acc_val]))))"

text \<open>
  Lines 47 to 63 of the script: the loaded model, the meter \<open>acc = Accuracy()\<close>, the
  loop, and the average that the last line prints.
\<close>

definition test_main ::
    "(tensor \<Rightarrow> tensor \<Rightarrow> real)
     \<Rightarrow> (tensor \<Rightarrow> tensor \<Rightarrow> py_error + tensor \<times> tensor \<times> tensor \<times> tensor)
     \<Rightarrow> (tensor \<times> tensor \<times> tensor) list \<Rightarrow> py_error + real" where
  "test_main calc_acc model batches =
     (case lookup_name ''Accuracy'' of
        Inl e \<Rightarrow> Inl e
      | Inr acc_cls \<Rightarrow>
     (case evaluation_loop calc_acc model batches [] of
        Inl e \<Rightarrow> Inl e
      | Inr vals \<Rightarrow> Inr (meter_avg vals)))"

section \<open>Properties of util/loss.py\<close>

subsection \<open>Element-wise operations on two lists\<close>

lemma map2_map_map: "map2 f (map g xs) (map h ys) = map2 (\<lambda>x y. f (g x) (h y)) xs ys"
  by (simp add: zip_map_map case_prod_unfold)

lemma map2_flip: "map2 f xs ys = map2 (\<lambda>y x. f x y) ys xs"
  by (induction xs ys rule: list_induct2') simp_all

lemma map2_map2_left: "map2 f (map2 g xs ys) xs = map2 (\<lambda>x y. f (g x y) x) xs ys"
  by (induction xs ys rule: list_induct2') simp_all

lemma map2_map2_right: "map2 f (map2 g xs ys) ys = map2 (\<lambda>x y. f (g x y) y) xs ys"
  by (induction xs ys rule: list_induct2') simp_all

lemma binary_cross_entropy_ok:
  assumes "shape x = shape t" "\<forall>v\<in>set (elems x). 0 \<le> v \<and> v \<le> 1"
    and "\<forall>y\<in>set (elems t). 0 \<le> y \<and> y \<le> 1"
  shows "binary_cross_entropy x t = Inr (Tensor (shape x) (BCE (elems x) (elems t)))"
  using assms by (auto simp: binary_cross_entropy_def BCE_def list_ex_iff)

subsection \<open>The default focal loss in closed form\<close>

text \<open>
  C1. With the default parameters (alpha 1, gamma 2, multiplier 2, binary and sg off), on
  probability tensors \<open>a\<close>, \<open>b\<close> with entries in \<open>(0, 1]\<close> and a target \<open>t\<close> of the same shape
  with entries in \<open>{0, 1}\<close>, \<open>CMFLoss.forward\<close> returns
  \<open>0.5 * mean ((1 - w_a)^2 * BCE a t) + 0.5 * mean ((1 - w_b)^2 * BCE b t)\<close>, in real
  arithmetic.
\<close>

theorem CMFLoss_forward_default_closed_form:
  assumes "shape a = shape t" and "shape b = shape t"
    and "list_all (\<lambda>x. 0 < x \<and> x \<le> 1) (elems a)"
    and "list_all (\<lambda>x. 0 < x \<and> x \<le> 1) (elems b)"
    and "list_all (\<lambda>y. y = 0 \<or> y = 1) (elems t)"
  shows "CMFLoss_forward CMFLoss_default a b t
         = Inr (CMFLoss_spec (elems a) (elems b) (elems t))"
proof -
  have A: "binary_cross_entropy a t = Inr (Tensor (shape a) (BCE (elems a) (elems t)))"
    using assms by (intro binary_cross_entropy_ok) (auto simp: list_all_iff)
  have B: "binary_cross_entropy b t = Inr (Tensor (shape b) (BCE (elems b) (elems t)))"
    using assms by (intro binary_cross_entropy_ok) (auto simp: list_all_iff)
  show ?thesis
    unfolding CMFLoss_forward_def A B
    by (simp add: CMFLoss_default_def CMFLoss_init_def cmf_weights_def CMFLoss_spec_def
        Let_def eps_def spec_w_a_def spec_w_b_def map2_map_map map2_map2_left map2_map2_right)
qed

theorem CMFLoss_forward_default_closed_form_witness:
  "shape (Tensor [2, 1] [1, 1 / 2]) = shape (Tensor [2, 1] [1, 0])
   \<and> shape (Tensor [2, 1] [1 / 4, 1]) = shape (Tensor [2, 1] [1, 0])
   \<and> list_all (\<lambda>x. 0 < x \<and> x \<le> 1) (elems (Tensor [2, 1] [1, 1 / 2]))
   \<and> list_all (\<lambda>x. 0 < x \<and> x \<le> 1) (elems (Tensor [2, 1] [1 / 4, 1]))
   \<and> list_all (\<lambda>y. y = 0 \<or> y = 1) (elems (Tensor [2, 1] [1, 0]))
   \<and> CMFLoss_forward CMFLoss_default
         (Tensor [2, 1] [1, 1 / 2]) (Tensor [2, 1] [1 / 4, 1]) (Tensor [2, 1] [1, 0])
       = Inr (CMFLoss_spec [1, 1 / 2] [1 / 4, 1] [1, 0])"
  using CMFLoss_forward_default_closed_form
    [of "Tensor [2, 1] [1, 1 / 2]" "Tensor [2, 1] [1, 0]" "Tensor [2, 1] [1 / 4, 1]"]
  by simp

subsection \<open>Symmetry of the focal loss\<close>

lemma cmf_weights_swap:
  assumes "\<not> sg self"
  shows "cmf_weights self pt_b pt_a = prod.swap (cmf_weights self pt_a pt_b)"
proof -
  have 1: "(\<lambda>y x. ((y + eps) * (multiplier self * x * y)) / (x + y + eps))
         = (\<lambda>a b. ((a + eps) * (multiplier self * a * b)) / (a + b + eps))"
    by (intro ext) (simp add: ac_simps)
  have 2: "(\<lambda>y x. ((x + eps) * (multiplier self * x * y)) / (x + y + eps))
         = (\<lambda>a b. ((b + eps) * (multiplier self * a * b)) / (a + b + eps))"
    by (intro ext) (simp add: ac_simps)
  have "map2 (\<lambda>a b. ((b + eps) * (multiplier self * a * b)) / (a + b + eps)) pt_b pt_a
      = map2 (\<lambda>a b. ((a + eps) * (multiplier self * a * b)) / (a + b + eps)) pt_a pt_b"
    by (subst map2_flip) (simp only: 1)
  moreover have "map2 (\<lambda>a b. ((a + eps) * (multiplier self * a * b)) / (a + b + eps)) pt_b pt_a
      = map2 (\<lambda>a b. ((b + eps) * (multiplier self * a * b)) / (a + b + eps)) pt_a pt_b"
    by (subst map2_flip) (simp only: 2)
  ultimately show ?thesis
    using assms by (simp add: cmf_weights_def Let_def)
qed

lemma CMFLoss_forward_swap:
  assumes "\<not> sg self"
  shows "outcome (CMFLoss_forward self a b t) = outcome (CMFLoss_forward self b a t)"
proof (cases "binary_cross_entropy a t")
  case (Inl e)
  then show ?thesis
    by (simp add: CMFLoss_forward_def outcome_def split: sum.splits)
next
  case A: (Inr la)
  show ?thesis
  proof (cases "binary_cross_entropy b t")
    case (Inl e)
    then show ?thesis
      by (simp add: CMFLoss_forward_def outcome_def split: sum.splits)
  next
    case B: (Inr lb)
    show ?thesis
      unfolding CMFLoss_forward_def A B
      by (simp add: cmf_weights_swap [OF assms, of "map (\<lambda>l. exp (- l)) (elems lb)"]
          Let_def outcome_def case_prod_unfold)
  qed
qed

lemma sg_CMFLoss_default: "\<not> sg CMFLoss_default"
  by (simp add: CMFLoss_default_def CMFLoss_init_def)

text \<open>
  C8. With \<open>sg\<close> off, \<open>CMFLoss.forward\<close> is symmetric in its first two arguments: the two
  calls raise together or return the same value. Hence the term
  \<open>criterion_cmfl(p, q, targets) + criterion_cmfl(q, p, targets)\<close> of \<open>Total_loss.forward\<close>
  is twice \<open>criterion_cmfl(p, q, targets)\<close>, and raises what that call raises.
\<close>

theorem CMFLoss_forward_symmetric:
  assumes "\<not> sg self"
  shows "outcome (CMFLoss_forward self a b t) = outcome (CMFLoss_forward self b a t)
       \<and> loss_pq_term (Total_loss_init cel l) p q t
         = map_sum id (\<lambda>v. 2 * v) (CMFLoss_forward CMFLoss_default p q t)"
proof
  show "outcome (CMFLoss_forward self a b t) = outcome (CMFLoss_forward self b a t)"
    using assms by (rule CMFLoss_forward_swap)
next
  have sw: "outcome (CMFLoss_forward CMFLoss_default p q t)
          = outcome (CMFLoss_forward CMFLoss_default q p t)"
    using sg_CMFLoss_default by (rule CMFLoss_forward_swap)
  show "loss_pq_term (Total_loss_init cel l) p q t
        = map_sum id (\<lambda>v. 2 * v) (CMFLoss_forward CMFLoss_default p q t)"
  proof (cases "CMFLoss_forward CMFLoss_default p q t")
    case (Inl e)
    then show ?thesis
      by (simp add: loss_pq_term_def Total_loss_init_def)
  next
    case (Inr v)
    with sw have "CMFLoss_forward CMFLoss_default q p t = Inr v"
      by (cases "CMFLoss_forward CMFLoss_default q p t") (simp_all add: outcome_def)
    with Inr show ?thesis
      by (simp add: loss_pq_term_def Total_loss_init_def)
  qed
qed

theorem CMFLoss_forward_symmetric_witness:
  "\<not> sg CMFLoss_default
   \<and> outcome (CMFLoss_forward CMFLoss_default
        (Tensor [2] [1, 1 / 2]) (Tensor [2] [1 / 4, 0]) (Tensor [2] [1, 0]))
     = outcome (CMFLoss_forward CMFLoss_default
        (Tensor [2] [1 / 4, 0]) (Tensor [2] [1, 1 / 2]) (Tensor [2] [1, 0]))
   \<and> loss_pq_term (Total_loss_init (\<lambda>r t. Inr 0) (7 / 10))
        (Tensor [2] [1, 1 / 2]) (Tensor [2] [1 / 4, 0]) (Tensor [2] [1, 0])
     = map_sum id (\<lambda>v. 2 * v) (CMFLoss_forward CMFLoss_default
        (Tensor [2] [1, 1 / 2]) (Tensor [2] [1 / 4, 0]) (Tensor [2] [1, 0]))"
  using CMFLoss_forward_symmetric [of CMFLoss_default
      "Tensor [2] [1, 1 / 2]" "Tensor [2] [1 / 4, 0]" "Tensor [2] [1, 0]"
      "\<lambda>r t. Inr 0" "7 / 10" "Tensor [2] [1, 1 / 2]" "Tensor [2] [1 / 4, 0]"]
    sg_CMFLoss_default
  by simp

subsection \<open>The total loss\<close>

text \<open>
  C4. With the default \<open>lamb = 0.7\<close>, \<open>Total_loss.forward\<close> returns
  \<open>(1 - 0.7) * CrossEntropyLoss(r, targets) + 0.7 * (CMFLoss(p, q, targets) +
  CMFLoss(q, p, targets))\<close>, raising what the first of the three calls that raises does;
  the two weights are non-negative and add up to one.
\<close>

theorem Total_loss_forward_default:
  "Total_loss_forward (Total_loss_default cel) p q r targets =
     (case cel r targets of
        Inl e \<Rightarrow> Inl e
      | Inr ce \<Rightarrow>
     (case CMFLoss_forward CMFLoss_default p q targets of
        Inl e \<Rightarrow> Inl e
      | Inr f_pq \<Rightarrow>
     (case CMFLoss_forward CMFLoss_default q p targets of
        Inl e \<Rightarrow> Inl e
      | Inr f_qp \<Rightarrow> Inr ((1 - 0.7) * ce + 0.7 * (f_pq + f_qp)))))
   \<and> lamb (Total_loss_default cel) = 0.7
   \<and> 0 \<le> 1 - lamb (Total_loss_default cel) \<and> 0 \<le> lamb (Total_loss_default cel)
   \<and> (1 - lamb (Total_loss_default cel)) + lamb (Total_loss_default cel) = 1"
  by (simp add: Total_loss_forward_def Total_loss_default_def Total_loss_init_def
      loss_pq_term_def split: sum.splits)

section \<open>Properties of model/cd_resnet.py\<close>

subsection \<open>What every layer of a ResNet is made of\<close>

lemma BasicBlock_init_layer_ok:
  assumes "BasicBlock_init i p s d g bw dl (Some BatchNorm2d) am = Inr b"
    and "list_all (layer_ok am) (case d of None \<Rightarrow> [] | Some m \<Rightarrow> modules m)"
  shows "list_all (layer_ok am) (modules b)"
  using assms
  by (auto simp: BasicBlock_init_def Let_def norm_layer_or_default_def conv3x3_def layer_ok_def
      split: if_splits option.splits)

lemma more_blocks_layer_ok:
  assumes "more_blocks n self block planes am = Inr bs"
    and "self_norm_layer self = BatchNorm2d"
  shows "list_all (layer_ok am) (concat (map modules bs))"
  using assms
proof (induction n arbitrary: bs)
  case 0
  then show ?case by simp
next
  case (Suc n)
  then show ?case
    by (cases block) (auto split: sum.splits dest!: BasicBlock_init_layer_ok)
qed

lemma make_layer_layer_ok:
  assumes "make_layer self block planes blocks s dil am = Inr (l, self')"
    and "self_norm_layer self = BatchNorm2d"
  shows "list_all (layer_ok am) (modules l) \<and> self_norm_layer self' = BatchNorm2d"
proof (cases block)
  case Bottleneck_cls
  with assms show ?thesis by (simp add: make_layer_def Let_def)
next
  case BasicBlock_cls
  from BasicBlock_cls assms show ?thesis
    by (auto simp: make_layer_def Let_def layer_ok_def conv1x1_def
        split: sum.splits if_splits
        dest!: BasicBlock_init_layer_ok more_blocks_layer_ok)
qed

lemma ResNet_init_layer_ok:
  assumes "ResNet_init block layers kw = Inr n" and "kw_norm_layer kw = None"
  shows "list_all (layer_ok (kw_att_mod kw)) (modules n)"
  using assms
  by (auto simp: ResNet_init_def Let_def norm_layer_or_default_def stem_conv_def layer_ok_def
        split: sum.splits if_splits option.splits prod.splits
        dest!: make_layer_layer_ok)

lemma ResNet_init_stem:
  assumes "ResNet_init block layers kw = Inr n"
  shows "conv1 n = stem_conv (kw_in_mod kw)"
  using assms
  by (auto simp: ResNet_init_def Let_def split: sum.splits if_splits option.splits prod.splits)

lemmas build_defs = resnet18_def resnet_factory_def ResNet_init_def default_kwargs_def
  norm_layer_or_default_def list_item_def make_layer_def Let_def BasicBlock_init_def
  stem_conv_def conv3x3_def conv1x1_def

lemma resnet18_rgb_returns:
  "\<exists>n. resnet18 (default_kwargs\<lparr>kw_att_mod := Some ''SimAM''\<rparr>) = Inr n
       \<and> length (filter is_BasicBlock (modules n)) = 8
       \<and> length (filter is_CD_Conv2d (modules n)) = 17"
  by (simp add: build_defs numeral_nat)

lemma resnet18_depth_returns:
  "\<exists>n. resnet18 (default_kwargs\<lparr>kw_in_mod := Some ''Depth'', kw_att_mod := Some ''SimAM''\<rparr>) = Inr n
       \<and> length (filter is_BasicBlock (modules n)) = 8
       \<and> length (filter is_CD_Conv2d (modules n)) = 17"
  by (simp add: build_defs numeral_nat)

subsection \<open>The checks of BasicBlock.__init__\<close>

lemma BasicBlock_init_full_all_return:
  "BasicBlock_init_full all_return inplanes planes s d g bw dl
       (map_option (\<lambda>f n. Inr (f n)) nl) am
     = BasicBlock_init inplanes planes s d g bw dl nl am"
  by (cases nl)
     (simp_all add: BasicBlock_init_full_def BasicBlock_init_def construct_def all_return_def
        norm_layer_or_default_def Let_def)





subsection \<open>Central-difference convolutions and attention in the backbone\<close>

lemma list_all_layer_ok_plain:
  "list_all (layer_ok am) ms \<Longrightarrow> list_all (\<lambda>m. \<not> plain_conv3x3 m) ms"
  by (induction ms) (simp_all add: layer_ok_def)

lemma list_all_layer_ok_attended:
  "list_all (layer_ok (Some ''SimAM'')) ms \<Longrightarrow> list_all attended ms"
  by (induction ms) (simp_all add: layer_ok_def)

text \<open>
  C2. \<open>conv3x3\<close> returns a \<open>CD_Conv2d\<close> with a 3x3 kernel; a \<open>BasicBlock\<close> takes its
  \<open>conv1\<close> from \<open>conv3x3\<close> and its \<open>conv2\<close> too (alone, or followed by the attention
  layer); the stem convolution of a \<open>ResNet\<close> is a \<open>CD_Conv2d\<close>; and in a \<open>ResNet\<close>
  built with the default normalisation layer no module is a plain \<open>nn.Conv2d\<close> with a
  3x3 kernel.
\<close>

theorem backbone_uses_CD_Conv2d:
  "is_CD_Conv2d (conv3x3 i out s g d) \<and> kernel_size (conv3x3 i out s g d) = 3
   \<and> (BasicBlock_init inplanes planes s' ds g' bw dl nl am = Inr b \<longrightarrow>
        conv1 b = conv3x3 inplanes planes s' 1 1
        \<and> (conv2 b = conv3x3 planes planes 1 1 1
           \<or> conv2 b = Sequential [conv3x3 planes planes 1 1 1, Sim_AM planes]))
   \<and> (ResNet_init block layers kw = Inr n \<longrightarrow>
        conv1 n = stem_conv (kw_in_mod kw) \<and> is_CD_Conv2d (conv1 n))
   \<and> (ResNet_init block layers kw = Inr n \<and> kw_norm_layer kw = None \<longrightarrow>
        list_all (\<lambda>m. \<not> plain_conv3x3 m) (modules n))"
proof (intro conjI impI)
  show "is_CD_Conv2d (conv3x3 i out s g d)" and "kernel_size (conv3x3 i out s g d) = 3"
    by (simp_all add: conv3x3_def)
next
  assume "BasicBlock_init inplanes planes s' ds g' bw dl nl am = Inr b"
  then have b: "b = BasicBlock (conv3x3 inplanes planes s' 1 1)
        (norm_layer_or_default nl planes) (ReLU True)
        (if am = Some ''SimAM'' then Sequential [conv3x3 planes planes 1 1 1, Sim_AM planes]
         else conv3x3 planes planes 1 1 1)
        (norm_layer_or_default nl planes) ds s'"
    by (auto simp: BasicBlock_init_def Let_def split: if_splits)
  show "conv1 b = conv3x3 inplanes planes s' 1 1"
    by (simp add: b)
  show "conv2 b = conv3x3 planes planes 1 1 1
        \<or> conv2 b = Sequential [conv3x3 planes planes 1 1 1, Sim_AM planes]"
    by (simp add: b)
next
  assume r: "ResNet_init block layers kw = Inr n"
  then show "conv1 n = stem_conv (kw_in_mod kw)"
    by (rule ResNet_init_stem)
  then show "is_CD_Conv2d (conv1 n)"
    by (simp add: stem_conv_def)
next
  assume "ResNet_init block layers kw = Inr n \<and> kw_norm_layer kw = None"
  then have "list_all (layer_ok (kw_att_mod kw)) (modules n)"
    using ResNet_init_layer_ok [of block layers kw n] by simp
  then show "list_all (\<lambda>m. \<not> plain_conv3x3 m) (modules n)"
    by (rule list_all_layer_ok_plain)
qed

theorem backbone_uses_CD_Conv2d_witness:
  "\<exists>b n. BasicBlock_init 64 128 2 None 1 64 1 None (Some ''SimAM'') = Inr b
     \<and> conv1 b = conv3x3 64 128 2 1 1
     \<and> conv2 b = Sequential [conv3x3 128 128 1 1 1, Sim_AM 128]
     \<and> resnet18 (default_kwargs\<lparr>kw_in_mod := Some ''Depth'', kw_att_mod := Some ''SimAM''\<rparr>) = Inr n
     \<and> conv1 n = CD_Conv2d 1 64 7 2 (Some 3) None False None
     \<and> list_all (\<lambda>m. \<not> plain_conv3x3 m) (modules n)
     \<and> length (filter is_CD_Conv2d (modules n)) = 17"
proof -
  obtain b where b: "BasicBlock_init 64 128 2 None 1 64 1 None (Some ''SimAM'') = Inr b"
    by (simp add: BasicBlock_init_def Let_def)
  obtain n where n: "resnet18 (default_kwargs\<lparr>kw_in_mod := Some ''Depth'', kw_att_mod := Some ''SimAM''\<rparr>) = Inr n"
      and c: "length (filter is_CD_Conv2d (modules n)) = 17"
    using resnet18_depth_returns by blast
  from n have r: "ResNet_init BasicBlock_cls [2, 2, 2, 2]
      (default_kwargs\<lparr>kw_in_mod := Some ''Depth'', kw_att_mod := Some ''SimAM''\<rparr>) = Inr n"
    by (simp add: resnet18_def resnet_factory_def)
  have k: "kw_norm_layer (default_kwargs\<lparr>kw_in_mod := Some ''Depth'', kw_att_mod := Some ''SimAM''\<rparr>) = None"
    by (simp add: default_kwargs_def)
  from backbone_uses_CD_Conv2d [of 64 128 2 1 1 64 128 2 None 1 64 1 None "Some ''SimAM''" b
      BasicBlock_cls "[2, 2, 2, 2]"
      "default_kwargs\<lparr>kw_in_mod := Some ''Depth'', kw_att_mod := Some ''SimAM''\<rparr>" n] b r k
  have "conv1 b = conv3x3 64 128 2 1 1"
    and "conv2 b = conv3x3 128 128 1 1 1 \<or> conv2 b = Sequential [conv3x3 128 128 1 1 1, Sim_AM 128]"
    and "conv1 n = stem_conv (Some ''Depth'')"
    and "list_all (\<lambda>m. \<not> plain_conv3x3 m) (modules n)"
    by simp_all
  moreover from b have "conv2 b = Sequential [conv3x3 128 128 1 1 1, Sim_AM 128]"
    by (auto simp: BasicBlock_init_def Let_def)
  ultimately show ?thesis
    using b n c by (auto simp: stem_conv_def)
qed

text \<open>
  C7. With \<open>att_mod = 'SimAM'\<close> a \<open>BasicBlock\<close> makes its \<open>conv2\<close> the \<open>Sequential\<close> of
  the convolution and a \<open>Sim_AM\<close> layer; \<open>RGB_net\<close> and \<open>Depth_net\<close> each build
  \<open>resnet18\<close> with \<open>att_mod = 'SimAM'\<close>; so every \<open>BasicBlock\<close> of such a \<open>ResNet\<close>, and
  each of the eight blocks of either stream, has the attention layer after its second
  convolution.
\<close>

theorem attention_in_both_streams:
  "(BasicBlock_init inplanes planes s ds g bw dl nl (Some ''SimAM'') = Inr b \<longrightarrow>
      conv2 b = Sequential [conv3x3 planes planes 1 1 1, Sim_AM planes])
   \<and> RGB_net_init
       = map_sum id (\<lambda>n. RGB_net n (AdaptiveAvgPool2d [1]) (Sequential [Linear 960 1, Sigmoid]))
           (resnet18 (default_kwargs\<lparr>kw_att_mod := Some ''SimAM''\<rparr>))
   \<and> Depth_net_init
       = map_sum id (\<lambda>n. Depth_net n (AdaptiveAvgPool2d [1]) (Sequential [Linear 960 1, Sigmoid]))
           (resnet18 (default_kwargs\<lparr>kw_in_mod := Some ''Depth'', kw_att_mod := Some ''SimAM''\<rparr>))
   \<and> (ResNet_init block layers kw = Inr n \<and> kw_norm_layer kw = None
        \<and> kw_att_mod kw = Some ''SimAM'' \<longrightarrow> list_all attended (modules n))
   \<and> (\<exists>r. RGB_net_init = Inr r \<and> list_all attended (modules r)
          \<and> length (filter is_BasicBlock (modules r)) = 8)
   \<and> (\<exists>d. Depth_net_init = Inr d \<and> list_all attended (modules d)
          \<and> length (filter is_BasicBlock (modules d)) = 8)"
proof (intro conjI impI)
  assume "BasicBlock_init inplanes planes s ds g bw dl nl (Some ''SimAM'') = Inr b"
  then show "conv2 b = Sequential [conv3x3 planes planes 1 1 1, Sim_AM planes]"
    by (auto simp: BasicBlock_init_def Let_def split: if_splits)
next
  show "RGB_net_init
       = map_sum id (\<lambda>n. RGB_net n (AdaptiveAvgPool2d [1]) (Sequential [Linear 960 1, Sigmoid]))
           (resnet18 (default_kwargs\<lparr>kw_att_mod := Some ''SimAM''\<rparr>))"
    by (simp add: RGB_net_init_def split: sum.splits)
next
  show "Depth_net_init
       = map_sum id (\<lambda>n. Depth_net n (AdaptiveAvgPool2d [1]) (Sequential [Linear 960 1, Sigmoid]))
           (resnet18 (default_kwargs\<lparr>kw_in_mod := Some ''Depth'', kw_att_mod := Some ''SimAM''\<rparr>))"
    by (simp add: Depth_net_init_def split: sum.splits)
next
  assume a: "ResNet_init block layers kw = Inr n \<and> kw_norm_layer kw = None
        \<and> kw_att_mod kw = Some ''SimAM''"
  then have "list_all (layer_ok (Some ''SimAM'')) (modules n)"
    using ResNet_init_layer_ok [of block layers kw n] by simp
  then show "list_all attended (modules n)"
    by (rule list_all_layer_ok_attended)
next
  obtain n where n: "resnet18 (default_kwargs\<lparr>kw_att_mod := Some ''SimAM''\<rparr>) = Inr n"
      and c: "length (filter is_BasicBlock (modules n)) = 8"
    using resnet18_rgb_returns by blast
  from n have "list_all (layer_ok (Some ''SimAM'')) (modules n)"
    using ResNet_init_layer_ok [of BasicBlock_cls "[2, 2, 2, 2]"
        "default_kwargs\<lparr>kw_att_mod := Some ''SimAM''\<rparr>" n]
    by (simp add: resnet18_def resnet_factory_def default_kwargs_def)
  then have "list_all attended (modules n)"
    by (rule list_all_layer_ok_attended)
  with n c show "\<exists>r. RGB_net_init = Inr r \<and> list_all attended (modules r)
          \<and> length (filter is_BasicBlock (modules r)) = 8"
    by (simp add: RGB_net_init_def)
next
  obtain n where n: "resnet18 (default_kwargs\<lparr>kw_in_mod := Some ''Depth'', kw_att_mod := Some ''SimAM''\<rparr>) = Inr n"
      and c: "length (filter is_BasicBlock (modules n)) = 8"
    using resnet18_depth_returns by blast
  from n have "list_all (layer_ok (Some ''SimAM'')) (modules n)"
    using ResNet_init_layer_ok [of BasicBlock_cls "[2, 2, 2, 2]"
        "default_kwargs\<lparr>kw_in_mod := Some ''Depth'', kw_att_mod := Some ''SimAM''\<rparr>" n]
    by (simp add: resnet18_def resnet_factory_def default_kwargs_def)
  then have "list_all attended (modules n)"
    by (rule list_all_layer_ok_attended)
  with n c show "\<exists>d. Depth_net_init = Inr d \<and> list_all attended (modules d)
          \<and> length (filter is_BasicBlock (modules d)) = 8"
    by (simp add: Depth_net_init_def)
qed

theorem attention_in_both_streams_witness:
  "\<exists>b n. BasicBlock_init 64 64 1 None 1 64 1 None (Some ''SimAM'') = Inr b
     \<and> conv2 b = Sequential [CD_Conv2d 64 64 3 1 (Some 1) (Some 1) False (Some 1), Sim_AM 64]
     \<and> ResNet_init BasicBlock_cls [1, 1, 1, 1] (default_kwargs\<lparr>kw_att_mod := Some ''SimAM''\<rparr>) = Inr n
     \<and> list_all attended (modules n)
     \<and> length (filter is_BasicBlock (modules n)) = 4"
proof -
  obtain b where b: "BasicBlock_init 64 64 1 None 1 64 1 None (Some ''SimAM'') = Inr b"
    by (simp add: BasicBlock_init_def Let_def)
  obtain n where n: "ResNet_init BasicBlock_cls [1, 1, 1, 1]
        (default_kwargs\<lparr>kw_att_mod := Some ''SimAM''\<rparr>) = Inr n"
      and c: "length (filter is_BasicBlock (modules n)) = 4"
    by (simp add: build_defs numeral_nat)
  have k: "kw_norm_layer (default_kwargs\<lparr>kw_att_mod := Some ''SimAM''\<rparr>) = None"
      "kw_att_mod (default_kwargs\<lparr>kw_att_mod := Some ''SimAM''\<rparr>) = Some ''SimAM''"
    by (simp_all add: default_kwargs_def)
  from attention_in_both_streams [of 64 64 1 None 1 64 1 None b BasicBlock_cls "[1, 1, 1, 1]"
      "default_kwargs\<lparr>kw_att_mod := Some ''SimAM''\<rparr>" n] b n k
  have "conv2 b = Sequential [conv3x3 64 64 1 1 1, Sim_AM 64]"
    and "list_all attended (modules n)"
    by simp_all
  with b n c show ?thesis
    by (auto simp: conv3x3_def)
qed

section \<open>Properties of model/rgbd_model.py\<close>

subsection \<open>The model that \<open>RGBD_model.__init__\<close> builds\<close>

lemma ResNet_init_is_ResNet:
  assumes "ResNet_init block layers kw = Inr n"
  shows "is_ResNet n"
  using assms
  by (auto simp: ResNet_init_def Let_def split: sum.splits if_splits option.splits prod.splits)

lemma run_zero_weights_ResNet:
  assumes "is_ResNet n" and "in_channels (conv1 n) = int c"
  shows "run_zero_weights n (Tensor [b, c, 128, 128] xs)
         = Inr (Tensor [b, 960, 4, 4] (replicate (b * 960 * 16) 0))"
  using assms by (cases n) simp_all

lemma RGBD_model_init_returns:
  "\<exists>n n'. RGBD_model_init =
       Inr (RGBD_model
             (RGB_net n (AdaptiveAvgPool2d [1]) (Sequential [Linear 960 1, Sigmoid]))
             (Depth_net n' (AdaptiveAvgPool2d [1]) (Sequential [Linear 960 1, Sigmoid]))
             (Sequential [Linear 1920 1, Sigmoid]))
     \<and> is_ResNet n \<and> is_ResNet n'
     \<and> in_channels (conv1 n) = 3 \<and> in_channels (conv1 n') = 1"
proof -
  obtain n where n: "resnet18 (default_kwargs\<lparr>kw_att_mod := Some ''SimAM''\<rparr>) = Inr n"
    using resnet18_rgb_returns by blast
  obtain n' where n': "resnet18 (default_kwargs\<lparr>kw_in_mod := Some ''Depth'', kw_att_mod := Some ''SimAM''\<rparr>) = Inr n'"
    using resnet18_depth_returns by blast
  from n have 1: "is_ResNet n"
    unfolding resnet18_def resnet_factory_def by (rule ResNet_init_is_ResNet)
  from n' have 2: "is_ResNet n'"
    unfolding resnet18_def resnet_factory_def by (rule ResNet_init_is_ResNet)
  from n have 3: "in_channels (conv1 n) = 3"
    using ResNet_init_stem [of BasicBlock_cls "[2, 2, 2, 2]"
        "default_kwargs\<lparr>kw_att_mod := Some ''SimAM''\<rparr>" n]
    by (simp add: resnet18_def resnet_factory_def default_kwargs_def stem_conv_def)
  from n' have 4: "in_channels (conv1 n') = 1"
    using ResNet_init_stem [of BasicBlock_cls "[2, 2, 2, 2]"
        "default_kwargs\<lparr>kw_in_mod := Some ''Depth'', kw_att_mod := Some ''SimAM''\<rparr>" n']
    by (simp add: resnet18_def resnet_factory_def default_kwargs_def stem_conv_def)
  show ?thesis
    using n n' 1 2 3 4 by (simp add: RGBD_model_init_def RGB_net_init_def Depth_net_init_def)
qed

subsection \<open>Only the first depth channel is read\<close>

lemma take_drop_eq:
  assumes "length xs = length ys"
    and "\<forall>i<k. xs ! (m + i) = ys ! (m + i)"
  shows "take k (drop m xs) = take k (drop m ys)"
proof (rule nth_equalityI)
  show "length (take k (drop m xs)) = length (take k (drop m ys))"
    using assms(1) by simp
next
  fix i assume "i < length (take k (drop m xs))"
  then have "i < k" "m + i < length xs" by auto
  then show "take k (drop m xs) ! i = take k (drop m ys) ! i"
    using assms by simp
qed

lemma agree_on_first_channel_slices:
  assumes "agree_on_first_channel x x'"
  shows "first_channel x = first_channel x'"
proof (cases "shape x")
  case Nil
  moreover from Nil assms have "shape x' = []"
    by (simp add: agree_on_first_channel_def)
  ultimately show ?thesis by (simp add: first_channel_def)
next
  case (Cons b s1)
  note c1 = Cons
  show ?thesis
  proof (cases s1)
    case Nil
    with c1 have "shape x = [b]" by simp
    moreover from this assms have "shape x' = [b]"
      by (simp add: agree_on_first_channel_def)
    ultimately show ?thesis by (simp add: first_channel_def)
  next
    case (Cons c rest)
    with c1 have sh: "shape x = b # c # rest" by simp
    with assms have sh': "shape x' = b # c # rest"
      by (simp add: agree_on_first_channel_def)
    have len: "length (elems x) = length (elems x')"
      using assms by (simp add: agree_on_first_channel_def)
    have "take (prod_list rest) (take (c * prod_list rest) (drop (n * (c * prod_list rest)) (elems x)))
        = take (prod_list rest) (take (c * prod_list rest) (drop (n * (c * prod_list rest)) (elems x')))"
      if "n < b" for n
    proof (cases "c = 0")
      case True
      then show ?thesis by simp
    next
      case False
      then have ag: "\<forall>n<b. \<forall>i<prod_list rest.
          elems x ! (n * (c * prod_list rest) + i) = elems x' ! (n * (c * prod_list rest) + i)"
        using assms sh by (simp add: agree_on_first_channel_def list_all_iff)
      from False have "min (prod_list rest) (c * prod_list rest) = prod_list rest"
        by (cases c) simp_all
      moreover have "take (prod_list rest) (drop (n * (c * prod_list rest)) (elems x))
          = take (prod_list rest) (drop (n * (c * prod_list rest)) (elems x'))"
        using len ag that by (intro take_drop_eq) simp_all
      ultimately show ?thesis by simp
    qed
    then have "map (take (prod_list rest)) (rows b (c * prod_list rest) (elems x))
             = map (take (prod_list rest)) (rows b (c * prod_list rest) (elems x'))"
      by (simp add: rows_def)
    then show ?thesis
      by (simp add: first_channel_def sh sh')
  qed
qed

text \<open>
  C9. \<open>RGBD_model.forward\<close> reads the depth input only through \<open>x_d[:, 0:1, :, :]\<close>: two
  depth inputs that agree on channel 0 (index by index, or as slices, whatever their other
  channels hold) give, with the same model and the same RGB input, the same outcome, be it
  the tuple \<open>(gap, r, p, q)\<close> or an exception.
\<close>

theorem depth_input_first_channel_only:
  "(agree_on_first_channel x_d x_d' \<longrightarrow>
      RGBD_model_forward run self x_rgb x_d = RGBD_model_forward run self x_rgb x_d')
   \<and> (first_channel x_d = first_channel x_d' \<longrightarrow>
      RGBD_model_forward run self x_rgb x_d = RGBD_model_forward run self x_rgb x_d')"
proof (intro conjI impI)
  assume "first_channel x_d = first_channel x_d'"
  then show "RGBD_model_forward run self x_rgb x_d = RGBD_model_forward run self x_rgb x_d'"
    by (simp add: RGBD_model_forward_def)
next
  assume "agree_on_first_channel x_d x_d'"
  then have "first_channel x_d = first_channel x_d'"
    by (rule agree_on_first_channel_slices)
  then show "RGBD_model_forward run self x_rgb x_d = RGBD_model_forward run self x_rgb x_d'"
    by (simp add: RGBD_model_forward_def)
qed

lemma depth_example_agree:
  "agree_on_first_channel
     (Tensor [2, 3, 128, 128]
        (replicate 16384 1 @ replicate 32768 2 @ replicate 16384 3 @ replicate 32768 4))
     (Tensor [2, 3, 128, 128]
        (replicate 16384 1 @ replicate 32768 7 @ replicate 16384 3 @ replicate 32768 8))"
proof -
  have "(replicate 16384 (1::real) @ replicate 32768 2 @ replicate 16384 3 @ replicate 32768 4)
          ! (n * 49152 + i)
      = (replicate 16384 (1::real) @ replicate 32768 7 @ replicate 16384 3 @ replicate 32768 8)
          ! (n * 49152 + i)"
    if "n < 2" and "i < 16384" for n i :: nat
  proof -
    from that(1) have "n = 0 \<or> n = 1" by arith
    then show ?thesis
      using that(2) by (auto simp: nth_append)
  qed
  then show ?thesis
    by (simp add: agree_on_first_channel_def list_all_iff)
qed

lemma depth_example_differ:
  "Tensor [2, 3, 128, 128]
     (replicate 16384 1 @ replicate 32768 2 @ replicate 16384 3 @ replicate 32768 4)
   \<noteq> Tensor [2, 3, 128, 128]
     (replicate 16384 1 @ replicate 32768 7 @ replicate 16384 3 @ replicate 32768 8)"
proof
  assume "Tensor [2, 3, 128, 128]
     (replicate 16384 1 @ replicate 32768 2 @ replicate 16384 3 @ replicate 32768 4)
   = Tensor [2, 3, 128, 128]
     (replicate 16384 1 @ replicate 32768 7 @ replicate 16384 3 @ replicate 32768 8)"
  then have "(replicate 16384 (1::real) @ replicate 32768 2 @ replicate 16384 3 @ replicate 32768 4)
               ! 16384
           = (replicate 16384 (1::real) @ replicate 32768 7 @ replicate 16384 3 @ replicate 32768 8)
               ! 16384"
    by simp
  then show False
    by (simp add: nth_append)
qed

lemma depth_example_returns:
  "\<exists>self gap r p q. RGBD_model_init = Inr self
     \<and> RGBD_model_forward run_zero_weights self
          (Tensor [2, 3, 128, 128] (replicate 98304 0))
          (Tensor [2, 3, 128, 128]
             (replicate 16384 1 @ replicate 32768 2 @ replicate 16384 3 @ replicate 32768 4))
        = Inr (gap, r, p, q)"
proof -
  from RGBD_model_init_returns obtain n n'
    where s: "RGBD_model_init =
       Inr (RGBD_model
             (RGB_net n (AdaptiveAvgPool2d [1]) (Sequential [Linear 960 1, Sigmoid]))
             (Depth_net n' (AdaptiveAvgPool2d [1]) (Sequential [Linear 960 1, Sigmoid]))
             (Sequential [Linear 1920 1, Sigmoid]))"
      and n: "is_ResNet n" "is_ResNet n'" "in_channels (conv1 n) = 3" "in_channels (conv1 n') = 1"
    by blast
  show ?thesis
    unfolding s using n
    by (simp add: RGBD_model_forward_def RGB_net_forward_def Depth_net_forward_def
        first_channel_def squeeze_def func_sigmoid_def torch_cat_dim1_def Let_def
        run_zero_weights_ResNet [where c = 3] run_zero_weights_ResNet [where c = "Suc 0"])
qed

theorem depth_input_first_channel_only_witness:
  "\<exists>self out. RGBD_model_init = Inr self
   \<and> agree_on_first_channel
        (Tensor [2, 3, 128, 128]
           (replicate 16384 1 @ replicate 32768 2 @ replicate 16384 3 @ replicate 32768 4))
        (Tensor [2, 3, 128, 128]
           (replicate 16384 1 @ replicate 32768 7 @ replicate 16384 3 @ replicate 32768 8))
   \<and> first_channel
        (Tensor [2, 3, 128, 128]
           (replicate 16384 1 @ replicate 32768 2 @ replicate 16384 3 @ replicate 32768 4))
     = first_channel
        (Tensor [2, 3, 128, 128]
           (replicate 16384 1 @ replicate 32768 7 @ replicate 16384 3 @ replicate 32768 8))
   \<and> Tensor [2, 3, 128, 128]
        (replicate 16384 1 @ replicate 32768 2 @ replicate 16384 3 @ replicate 32768 4)
     \<noteq> Tensor [2, 3, 128, 128]
        (replicate 16384 1 @ replicate 32768 7 @ replicate 16384 3 @ replicate 32768 8)
   \<and> RGBD_model_forward run_zero_weights self
        (Tensor [2, 3, 128, 128] (replicate 98304 0))
        (Tensor [2, 3, 128, 128]
           (replicate 16384 1 @ replicate 32768 2 @ replicate 16384 3 @ replicate 32768 4))
     = Inr out
   \<and> RGBD_model_forward run_zero_weights self
        (Tensor [2, 3, 128, 128] (replicate 98304 0))
        (Tensor [2, 3, 128, 128]
           (replicate 16384 1 @ replicate 32768 7 @ replicate 16384 3 @ replicate 32768 8))
     = Inr out"
proof -
  from depth_example_returns obtain self out
    where s: "RGBD_model_init = Inr self"
      and r: "RGBD_model_forward run_zero_weights self
          (Tensor [2, 3, 128, 128] (replicate 98304 0))
          (Tensor [2, 3, 128, 128]
             (replicate 16384 1 @ replicate 32768 2 @ replicate 16384 3 @ replicate 32768 4))
        = Inr out"
    by blast
  note a = depth_example_agree
  from a have f: "first_channel
        (Tensor [2, 3, 128, 128]
           (replicate 16384 1 @ replicate 32768 2 @ replicate 16384 3 @ replicate 32768 4))
     = first_channel
        (Tensor [2, 3, 128, 128]
           (replicate 16384 1 @ replicate 32768 7 @ replicate 16384 3 @ replicate 32768 8))"
    by (rule agree_on_first_channel_slices)
  from a depth_input_first_channel_only
      [where x_d = "Tensor [2, 3, 128, 128]
           (replicate 16384 1 @ replicate 32768 2 @ replicate 16384 3 @ replicate 32768 4)"
        and x_d' = "Tensor [2, 3, 128, 128]
           (replicate 16384 1 @ replicate 32768 7 @ replicate 16384 3 @ replicate 32768 8)"
        and run = run_zero_weights and self = self
        and x_rgb = "Tensor [2, 3, 128, 128] (replicate 98304 0)"]
  have e: "RGBD_model_forward run_zero_weights self
        (Tensor [2, 3, 128, 128] (replicate 98304 0))
        (Tensor [2, 3, 128, 128]
           (replicate 16384 1 @ replicate 32768 2 @ replicate 16384 3 @ replicate 32768 4))
     = RGBD_model_forward run_zero_weights self
        (Tensor [2, 3, 128, 128] (replicate 98304 0))
        (Tensor [2, 3, 128, 128]
           (replicate 16384 1 @ replicate 32768 7 @ replicate 16384 3 @ replicate 32768 8))"
    by blast
  from s a f depth_example_differ r e show ?thesis
    by (intro exI [of _ self] exI [of _ out]) simp
qed

subsection \<open>What the forward pass returns, and when it does not\<close>

text \<open>
  When \<open>RGBD_model.forward\<close> returns \<open>(gap, r, p, q)\<close>, \<open>p\<close> comes from the RGB stream on
  \<open>x_rgb\<close>, \<open>q\<close> from the depth stream on the first channel of \<open>x_d\<close>, \<open>gap\<close> is the
  concatenation of the two pooled feature tensors and \<open>r\<close> is the joint classifier on
  \<open>gap\<close>.
\<close>

lemma RGBD_model_forward_returns:
  assumes "RGBD_model_forward run self x_rgb x_d = Inr (gap, r, p, q)"
  shows "\<exists>x_d0 gap_rgb gap_d.
           first_channel x_d = Inr x_d0
         \<and> RGB_net_forward run (rgb_net self) x_rgb = Inr (gap_rgb, p)
         \<and> Depth_net_forward run (depth_net self) x_d0 = Inr (gap_d, q)
         \<and> torch_cat_dim1 gap_rgb gap_d = Inr gap
         \<and> run (classifier self) gap = Inr r"
  using assms by (auto simp: RGBD_model_forward_def split: sum.splits prod.splits)

lemma torch_cat_dim1_rank:
  assumes "length (shape a) < 2"
  shows "torch_cat_dim1 a b = Inl IndexError"
  using assms by (cases "shape a" rule: list.exhaust; cases "tl (shape a)")
    (auto simp: torch_cat_dim1_def split: list.splits)

lemma squeeze_batch_of_one:
  assumes "shape pooled = [1, c, 1, 1]"
  shows "length (shape (func_sigmoid (squeeze pooled))) < 2"
  using assms by (simp add: func_sigmoid_def squeeze_def)

text \<open>
  C3. The forward pass is to return \<open>(gap, r, p, q)\<close> for every pair of inputs. For a
  batch of one it does not: the pooled features of shape \<open>[1, C, 1, 1]\<close> lose their batch
  dimension in \<open>squeeze()\<close>, the pooled feature tensor of the RGB stream has one
  dimension, and \<open>torch.cat(..., dim=1)\<close> raises IndexError.
\<close>

theorem RGBD_model_forward_batch_of_one:
  assumes "first_channel x_d = Inr x_d0"
    and "run (net (rgb_net self)) x_rgb = Inr y_rgb"
    and "run (gavg_pool (rgb_net self)) y_rgb = Inr pooled_rgb"
    and "shape pooled_rgb = [1, c, 1, 1]"
    and "run (classifier (rgb_net self)) (func_sigmoid (squeeze pooled_rgb)) = Inr p"
    and "Depth_net_forward run (depth_net self) x_d0 = Inr (gap_d, q)"
  shows "RGBD_model_forward run self x_rgb x_d = Inl IndexError"
proof -
  have "RGB_net_forward run (rgb_net self) x_rgb = Inr (func_sigmoid (squeeze pooled_rgb), p)"
    using assms(2,3,5) by (simp add: RGB_net_forward_def Let_def)
  moreover have "torch_cat_dim1 (func_sigmoid (squeeze pooled_rgb)) gap_d = Inl IndexError"
    using assms(4) by (intro torch_cat_dim1_rank squeeze_batch_of_one)
  ultimately show ?thesis
    using assms(1,6) by (simp add: RGBD_model_forward_def)
qed

lemma run_zero_weights_batch_of_two:
  "\<exists>self gap r p q. RGBD_model_init = Inr self
     \<and> RGBD_model_forward run_zero_weights self
          (Tensor [2, 3, 128, 128] (replicate 98304 0)) (Tensor [2, 3, 128, 128] (replicate 98304 0))
        = Inr (gap, r, p, q)
     \<and> shape gap = [2, 1920] \<and> shape r = [2, 1] \<and> shape p = [2, 1] \<and> shape q = [2, 1]"
proof -
  from RGBD_model_init_returns obtain n n'
    where s: "RGBD_model_init =
       Inr (RGBD_model
             (RGB_net n (AdaptiveAvgPool2d [1]) (Sequential [Linear 960 1, Sigmoid]))
             (Depth_net n' (AdaptiveAvgPool2d [1]) (Sequential [Linear 960 1, Sigmoid]))
             (Sequential [Linear 1920 1, Sigmoid]))"
      and n: "is_ResNet n" "is_ResNet n'" "in_channels (conv1 n) = 3" "in_channels (conv1 n') = 1"
    by blast
  show ?thesis
    unfolding s using n
    by (simp add: RGBD_model_forward_def RGB_net_forward_def Depth_net_forward_def
        first_channel_def squeeze_def func_sigmoid_def torch_cat_dim1_def Let_def
        run_zero_weights_ResNet [where c = 3] run_zero_weights_ResNet [where c = "Suc 0"])
qed

theorem RGBD_model_forward_batch_of_one_witness:
  "\<exists>self. RGBD_model_init = Inr self
     \<and> RGBD_model_forward run_zero_weights self
          (Tensor [1, 3, 128, 128] (replicate 49152 0)) (Tensor [1, 3, 128, 128] (replicate 49152 0))
        = Inl IndexError"
proof -
  from RGBD_model_init_returns obtain n n'
    where s: "RGBD_model_init =
       Inr (RGBD_model
             (RGB_net n (AdaptiveAvgPool2d [1]) (Sequential [Linear 960 1, Sigmoid]))
             (Depth_net n' (AdaptiveAvgPool2d [1]) (Sequential [Linear 960 1, Sigmoid]))
             (Sequential [Linear 1920 1, Sigmoid]))"
      and n: "is_ResNet n" "is_ResNet n'" "in_channels (conv1 n) = 3" "in_channels (conv1 n') = 1"
    by blast
  define self where "self = RGBD_model
             (RGB_net n (AdaptiveAvgPool2d [1]) (Sequential [Linear 960 1, Sigmoid]))
             (Depth_net n' (AdaptiveAvgPool2d [1]) (Sequential [Linear 960 1, Sigmoid]))
             (Sequential [Linear 1920 1, Sigmoid])"
  define x where "x = Tensor [1, 3, 128, 128] (replicate 49152 0)"
  have 1: "first_channel x = Inr (Tensor [1, 1, 128, 128] (replicate 16384 0))"
    by (simp add: x_def first_channel_def rows_def)
  have 2: "run_zero_weights (net (rgb_net self)) x = Inr (Tensor [1, 960, 4, 4] (replicate 15360 0))"
    using n by (simp add: self_def x_def run_zero_weights_ResNet [where c = 3])
  have 3: "run_zero_weights (gavg_pool (rgb_net self)) (Tensor [1, 960, 4, 4] (replicate 15360 0))
           = Inr (Tensor [1, 960, 1, 1] (replicate 960 0))"
    by (simp add: self_def)
  have 4: "shape (Tensor [1, 960, 1, 1] (replicate 960 0)) = [1, 960, 1, 1]"
    by simp
  have 5: "run_zero_weights (classifier (rgb_net self))
             (func_sigmoid (squeeze (Tensor [1, 960, 1, 1] (replicate 960 0))))
           = Inr (Tensor [1] [1 / 2])"
    by (simp add: self_def func_sigmoid_def squeeze_def)
  have 6: "Depth_net_forward run_zero_weights (depth_net self) (Tensor [1, 1, 128, 128] (replicate 16384 0))
           = Inr (Tensor [960] (replicate 960 (1 / 2)), Tensor [1] [1 / 2])"
    using n by (simp add: self_def Depth_net_forward_def func_sigmoid_def squeeze_def Let_def
        run_zero_weights_ResNet [where c = "Suc 0"])
  from RGBD_model_forward_batch_of_one [of x _ run_zero_weights self x, OF 1 2 3 4 5 6]
  have "RGBD_model_forward run_zero_weights self x x = Inl IndexError" .
  with s show ?thesis
    unfolding self_def x_def by blast
qed

section \<open>Properties of test.py\<close>

text \<open>
  C5. The script is to score every batch and print the average accuracy. It stops before
  the loop: line 48 calls \<open>Accuracy\<close>, a name the script neither imports nor defines, so
  whatever the model and the test set, the run ends in a NameError.
\<close>

theorem test_main_raises_NameError:
  "test_main calc_acc model batches = Inl (NameError ''Accuracy'')"
  by (simp add: test_main_def lookup_name_def test_py_names_def builtin_names_def)

end
